theory Spec2Isabelle
  imports Main "HOL-Library.Word"
begin

unbundle bit_operations_syntax

section \<open>Data model of package chaincfg\<close>

text \<open>
  Go's \<open>byte\<close>, \<open>uint16\<close>, \<open>uint32\<close> and \<open>uint64\<close> are words of that width.  The signed
  fields (\<open>int32\<close>, \<open>int64\<close>, \<open>time.Duration\<close>) only ever hold literals and are never
  computed with, so they are integers.  \<open>*big.Int\<close> is an unbounded integer.  A \<open>[4]byte\<close>
  array is a 4-tuple of bytes, a \<open>[]byte\<close> slice a list of bytes, a Go \<open>string\<close> a list
  of 8-bit characters.
\<close>

type_synonym byte = "8 word"
type_synonym byte4 = "byte \<times> byte \<times> byte \<times> byte"

text \<open>\<open>wire.BitcoinNet\<close> is declared as \<open>uint32\<close>.\<close>

type_synonym BitcoinNet = "32 word"

text \<open>
  The four network magics \<open>wire.MainNet\<close>, \<open>wire.TestNet\<close>, \<open>wire.TestNet4\<close> and
  \<open>wire.SimNet\<close> are constants of \<open>wire/protocol.go\<close>, a file outside the ones
  modelled here.  Their values are therefore a parameter of everything that mentions them.
\<close>

record wire =
  MainNet :: BitcoinNet
  TestNet :: BitcoinNet
  TestNet4 :: BitcoinNet
  SimNet :: BitcoinNet


text \<open>
  \<open>Checkpoint\<close>: the hash is kept as the hexadecimal string the source hands to
  \<open>newHashFromStr\<close>; its decoder \<open>chainhash.NewHashFromStr\<close> is not part of the files modelled here.
\<close>

record Checkpoint =
  Height :: int
  Hash :: string

record DNSSeed =
  Host :: string
  HasFiltering :: bool

record ConsensusDeployment =
  BitNumber :: byte
  StartTime :: "64 word"
  ExpireTime :: "64 word"

text \<open>The deployment offsets, an \<open>iota\<close> enumeration starting at 0.\<close>

definition DeploymentTestDummy :: nat where "DeploymentTestDummy = 0"
definition DeploymentCSV :: nat where "DeploymentCSV = 1"
definition DeploymentSegwit :: nat where "DeploymentSegwit = 2"
definition DefinedDeployments :: nat where "DefinedDeployments = 3"

text \<open>
  \<open>Params\<close>.  The two genesis references (\<open>GenesisBlock\<close>, \<open>GenesisHash\<close>) are pointers
  to values of package \<open>wire\<close> and \<open>chainhash\<close> types and are left out; every other field
  of the struct is present.  The array \<open>Deployments\<close> of length \<open>DefinedDeployments\<close> is a
  list read at the deployment offsets.
\<close>

record Params =
  Name :: string
  Net :: BitcoinNet
  DefaultPort :: string
  DNSSeeds :: "DNSSeed list"
  PowLimit :: int
  PowLimitBits :: "32 word"
  BIP0034Height :: int
  BIP0065Height :: int
  BIP0066Height :: int
  CoinbaseMaturity :: "16 word"
  SubsidyReductionInterval :: int
  TargetTimespan :: int
  TargetTimePerBlock :: int
  RetargetAdjustmentFactor :: int
  ReduceMinDifficulty :: bool
  MinDiffReductionTime :: int
  GenerateSupported :: bool
  Checkpoints :: "Checkpoint list"
  RuleChangeActivationThreshold :: "32 word"
  MinerConfirmationWindow :: "32 word"
  Deployments :: "ConsensusDeployment list"
  RelayNonStdTxs :: bool
  Bech32HRPSegwit :: string
  PubKeyHashAddrID :: byte
  ScriptHashAddrID :: byte
  PrivateKeyID :: byte
  WitnessPubKeyHashAddrID :: byte
  WitnessScriptHashAddrID :: byte
  HDPrivateKeyID :: byte4
  HDPublicKeyID :: byte4
  HDCoinType :: "32 word"

subsection \<open>Constants of the standard library used by the literals\<close>

text \<open>\<open>time.Duration\<close> counts nanoseconds.\<close>

definition Minute :: int where "Minute = 60 * 1000000000"
definition Hour :: int where "Hour = 60 * Minute"

text \<open>\<open>math.MaxInt64\<close> is \<open>1<<63 - 1\<close>; the literals store it in a \<open>uint64\<close> field.\<close>

definition MaxInt64 :: "64 word" where "MaxInt64 = 9223372036854775807"

subsection \<open>Proof-of-work limits\<close>

definition bigOne :: int where
  "bigOne = 1"

definition mainPowLimit :: int where
  "mainPowLimit = 0x0fffff000000000000000000000000000000000000000000000000000000"

definition regressionPowLimit :: int where
  "regressionPowLimit = push_bit 255 bigOne - bigOne"

definition testNet3PowLimit :: int where
  "testNet3PowLimit = push_bit 224 bigOne - bigOne"

definition testNet4PowLimit :: int where
  "testNet4PowLimit = 0x0fffff000000000000000000000000000000000000000000000000000000"

definition simNetPowLimit :: int where
  "simNetPowLimit = push_bit 255 bigOne - bigOne"

subsection \<open>The built-in networks\<close>

text \<open>
  The four \<open>Params\<close> literals, field by field.  A field the Go literal does not mention
  holds its zero value (the two witness address IDs of \<open>RegressionNetParams\<close>); a \<open>nil\<close>
  slice is the empty list.
\<close>

definition MainNetParams :: "wire \<Rightarrow> Params" where
  "MainNetParams w = \<lparr>
     Name = ''mainnet'',
     Net = MainNet w,
     DefaultPort = ''35677'',
     DNSSeeds = [
       \<lparr>Host = ''85.25.44.119'', HasFiltering = True\<rparr>,
       \<lparr>Host = ''13.114.218.80'', HasFiltering = True\<rparr>,
       \<lparr>Host = ''159.69.19.237'', HasFiltering = False\<rparr>,
       \<lparr>Host = ''46.105.62.121'', HasFiltering = False\<rparr>,
       \<lparr>Host = ''46.101.126.142'', HasFiltering = False\<rparr>,
       \<lparr>Host = ''212.237.21.74'', HasFiltering = True\<rparr>,
       \<lparr>Host = ''109.169.63.180'', HasFiltering = True\<rparr>,
       \<lparr>Host = ''5.9.10.66'', HasFiltering = False\<rparr>,
       \<lparr>Host = ''209.97.179.113'', HasFiltering = False\<rparr>,
       \<lparr>Host = ''45.77.86.161'', HasFiltering = False\<rparr>],
     PowLimit = mainPowLimit,
     PowLimitBits = 504365055,
     BIP0034Height = 710000,
     BIP0065Height = 99999999,
     BIP0066Height = 99999999,
     CoinbaseMaturity = 30,
     SubsidyReductionInterval = 525600,
     TargetTimespan = Minute * 30,
     TargetTimePerBlock = Minute * 1,
     RetargetAdjustmentFactor = 16,
     ReduceMinDifficulty = False,
     MinDiffReductionTime = 0,
     GenerateSupported = False,
     Checkpoints = [
     \<lparr>Height = 100, Hash = ''c3d91cb4726610d422f8652a5a7cc21bd42e1b8009c00462081c81316d9abad6''\<rparr>,
     \<lparr>Height = 10000, Hash = ''7b50ea3b42e613e65ec2aca6797a5780e1c545a617e4a610577fb4b040f0035b''\<rparr>,
     \<lparr>Height = 30000, Hash = ''43e2fe7c700191ddfabe2cd09dfd3fc9eb6331f3c19e59b3e4a87cfa88cac543''\<rparr>,
     \<lparr>Height = 50000, Hash = ''6a4f705b7a34de7dc1b6573b3595fde05c7b4303b35ede20a3b945244adc6c70''\<rparr>,
     \<lparr>Height = 69500, Hash = ''8387b49853928fc67d8b8421fd9214184db590eeecd90a200c9d902d8b42e11f''\<rparr>,
     \<lparr>Height = 80000, Hash = ''a7d7ac0b4b1f5eb56b50ad0693c47f47863b8df81f17514bcb5e59c0a4074eba''\<rparr>,
     \<lparr>Height = 91000, Hash = ''3f135e0e06ae032de5437ae2b981e3ab84c7d22310224a6e53c6e6e769e8f8f0''\<rparr>,
     \<lparr>Height = 101000, Hash = ''ba5948ef9fce38887df24c54366121437d336bd67a4332508248def0032c5d6e''\<rparr>,
     \<lparr>Height = 111000, Hash = ''bb9cc6e2d9da343774dc4b49be417731991b90ef53a7fa7eb669cce237223c37''\<rparr>,
     \<lparr>Height = 121000, Hash = ''1d286956120cf256bed13bcc1f5fe79a98347c80f2225ded92bbbdfc1147b5f5''\<rparr>,
     \<lparr>Height = 136000, Hash = ''b7c7416c40425bc7976c7b6b87734e2fb84855eecd30e3e9673caf8c7f599b5c''\<rparr>,
     \<lparr>Height = 153000, Hash = ''9f31abd27721e7eb2b58c0a61a117c324a3a6b8f45c82e8963b1bd14166f6510''\<rparr>,
     \<lparr>Height = 161000, Hash = ''f7a9069c705516f60878bf6da9bac02c12d0d8984cb90bce03fe34842ba7eb3d''\<rparr>,
     \<lparr>Height = 170000, Hash = ''827d5ce5ed69153deacab9a2d3c35a7b33cdaa397a6a4a540d538b765182f234''\<rparr>,
     \<lparr>Height = 181000, Hash = ''69fa48e8b9231f101df79c5b3174feb70bf6da11d88a4ce879a7c9ecb799f46d''\<rparr>,
     \<lparr>Height = 191000, Hash = ''80a9ea6b375312c376de880b6958459973a95be1dcbf28db1731452a59ef9750''\<rparr>,
     \<lparr>Height = 200000, Hash = ''003a4cb3bf206cfc23b9477e1c433280ae1b3393a21aa858aa322e8402204cd0''\<rparr>,
     \<lparr>Height = 220000, Hash = ''bed97c09983d1ee14d5f925c31dc4245b6c9d66af4fdadcf973465cb265b52c3''\<rparr>,
     \<lparr>Height = 240000, Hash = ''d4e782aae21f551d4a8d7756eb92dfa2cb23d1ede58162382b3bbced4fbee518''\<rparr>,
     \<lparr>Height = 260000, Hash = ''dfaef016341fab642190a6656b6c52efbdb43ce8a590bace86793f3c1b1276be''\<rparr>,
     \<lparr>Height = 280000, Hash = ''6b836125e431d3fd31ef55f5fbbdfdadc4d9b98b11db5ee0b7ac8f1f8c3ede32''\<rparr>,
     \<lparr>Height = 301000, Hash = ''c557d7363393148a630a3fda46ca380a202fe82fa594c5e57f88fbece755bb05''\<rparr>,
     \<lparr>Height = 324000, Hash = ''8f6cb33fd75e327eb1a1d90b13ba2124e077b4cc5240bc7ec8039aee8a345e85''\<rparr>,
     \<lparr>Height = 347000, Hash = ''f4bd9894306981ca4c20cdbf0bbd9e9832696701f5b3d3a840d026b893db7337''\<rparr>,
     \<lparr>Height = 383000, Hash = ''d902cf21480851c35844b0744ea72c1bc2d9318e87a7de63a5e3e3854331a39c''\<rparr>,
     \<lparr>Height = 401000, Hash = ''e43417eb3b583fd28dfbfb38c65763d990b4c370066ac615a08c4c5c3910ebc9''\<rparr>,
     \<lparr>Height = 420000, Hash = ''76e0de5adb117e12e85beb264c45e768e47d1720d72a49a24daab57493e07a04''\<rparr>,
     \<lparr>Height = 440000, Hash = ''bbc6051554e936d0a18adddb95064b16a001ce164d061fb399f26416ce7860f9''\<rparr>,
     \<lparr>Height = 461000, Hash = ''a60d67991b4963efee5b102c281755afde28803b9bc0b647f0cbc2120b35185b''\<rparr>,
     \<lparr>Height = 480000, Hash = ''d88e6f5e77a8cb4bcb883168f357a94db31203f1977a15d90b6f6d4c2edebbbb''\<rparr>,
     \<lparr>Height = 500000, Hash = ''a2989da9f8e785f7040c2e2dfc0177babbf736cfad9f2b401656fea4c3c7c9db''\<rparr>,
     \<lparr>Height = 510000, Hash = ''7646ee1a99843f1e303d85e14c58dbf2bd65b393b273b379de14534743111b72''\<rparr>,
     \<lparr>Height = 520000, Hash = ''114f6c2065ad5e668b901dd5ed5e9d302d6153f8e38381fbfd44485d7d499e10''\<rparr>,
     \<lparr>Height = 540000, Hash = ''d7480699ff87574bfad0038b8697f9bc4df5f0cba31058a637eefbc94e402761''\<rparr>,
     \<lparr>Height = 600000, Hash = ''85ac8dbbba7a870a45740677be5f35114cb3b70f56d1c93cc2aaf415629037e7''\<rparr>,
     \<lparr>Height = 700000, Hash = ''450af2f828cdfb29be40d644d39a0858b29fe05b556946db31a7c365cffed705''\<rparr>,
     \<lparr>Height = 800001, Hash = ''a6d915a25e905d1329e482aac91228b168de6e6efb3838df16c21c3ac3a82ea2''\<rparr>,
     \<lparr>Height = 900000, Hash = ''7854a46edbdc4311006a9fd27ae601bb1ebd22fc5e8d6f1757e15237080a545b''\<rparr>,
     \<lparr>Height = 1000000, Hash = ''ec070022a4fe9b450e02edd08c6ed355047bc8e65ef05e881b51c212d7c0fe95''\<rparr>,
     \<lparr>Height = 1010001, Hash = ''a2cb82b4ae04854108b18c502f1b33e18c6f69b9d4407e8aa205a23242cd4daf''\<rparr>,
     \<lparr>Height = 1050000, Hash = ''3369fa16394aa222736793fd3fd50d7f7a34d5b1ff67b344eaba269daab28a68''\<rparr>,
     \<lparr>Height = 1060000, Hash = ''44e3b2bfbfb9eef5ef34df447c9ea4c4912b8a3819c2c56dfd0dc02db8a84347''\<rparr>,
     \<lparr>Height = 1100000, Hash = ''4173031420285636eeecfab94e4e62e3a3cf6e144b97b2cc3622c683e09102f0''\<rparr>,
     \<lparr>Height = 1394462, Hash = ''ef308b7f477903acd8f300e6f0684c4888ce28c491fc32c1c469bfba6abf091b''\<rparr>,
     \<lparr>Height = 1400000, Hash = ''4bc57c3a57cc977db9f3bd6a095f51c0c7cc9c30fa8554505fa8f8e33d9f2b80''\<rparr>,
     \<lparr>Height = 1410000, Hash = ''7512574ec717d46a90b8c36fd923ef819fdc298b8e4be57be631519662f0db59''\<rparr>,
     \<lparr>Height = 1573741, Hash = ''6e4dacfd1684e71a178f29f3e9c714d264e6d385f64c31cdbe532b3204ce4e1d''\<rparr>,
     \<lparr>Height = 1574000, Hash = ''cef389868efd7785b977eb86527e8049a2a5ea472a6ed9bfc0741c6d6b39234b''\<rparr>,
     \<lparr>Height = 1579000, Hash = ''12cb8ae28107d99f4ba24465b9abf21f98fe855d9b09449cf5c8ed98120829c1''\<rparr>,
     \<lparr>Height = 1589000, Hash = ''479746c27e323e233e58af6024bb7b9727a26bc0114c26ff537469e6ada105e1''\<rparr>,
     \<lparr>Height = 1600000, Hash = ''f44cbdcb21fc7716947f763ccca5de5b02ffff7f14beafef0a7486067f6777fa''\<rparr>,
     \<lparr>Height = 1650000, Hash = ''70caabb0720c95f67a02eabfde27253eaa8698dc6ea5716631890876b9df421a''\<rparr>,
     \<lparr>Height = 1700000, Hash = ''691eb62d25a0961e81f1a8427b8c21e01ade5befe4a94be5826f49cfecc070a0''\<rparr>,
     \<lparr>Height = 1750000, Hash = ''8971f1790e58c6de0ea2854872c6ad03752b65567ab8e5c8458ae4a6eb9fb783''\<rparr>,
     \<lparr>Height = 1766666, Hash = ''ffb7d30ec4d20cae926af05252dc39dbc433b068a0807a8f0dfa63521caca6f0''\<rparr>,
     \<lparr>Height = 1888888, Hash = ''89530dba778db5a540aac6b7b8659cee8909ba445fa5a54ba3023e98e045692d''\<rparr>,
     \<lparr>Height = 1892222, Hash = ''685a23cfa75e4e084f32b6a4ae09b3113c9509d84ce0559813627d462df6db88''\<rparr>,
     \<lparr>Height = 2227008, Hash = ''23eb6ca0fc87c887485a1417364dae6c3ae5cc4801c6eef8fc2b6bb83cdf9013''\<rparr>,
     \<lparr>Height = 2242222, Hash = ''98b01e772f0ca3b3ac875857e4f3b6571f8f18b8b896d0cb2feefeca90b69583''\<rparr>,
     \<lparr>Height = 2460000, Hash = ''13dcc432b541f34539f0582ebad2ab045db399e58404385ee1e24b4713346a5b''\<rparr>,
     \<lparr>Height = 2856666, Hash = ''057391a103bca1b54331c53ac81b9e5f588a359ca6a3068a53103c33d0f0e7ef''\<rparr>],
     RuleChangeActivationThreshold = 6048,
     MinerConfirmationWindow = 8064,
     Deployments = [
       \<lparr>BitNumber = 28, StartTime = 1199145601, ExpireTime = 1230767999\<rparr>,
       \<lparr>BitNumber = 0, StartTime = 1485561600, ExpireTime = 1517356801\<rparr>,
       \<lparr>BitNumber = 1, StartTime = 1485561600, ExpireTime = 1517356801\<rparr>],
     RelayNonStdTxs = False,
     Bech32HRPSegwit = ''eac'',
     PubKeyHashAddrID = 0x30,
     ScriptHashAddrID = 0x32,
     PrivateKeyID = 0xB0,
     WitnessPubKeyHashAddrID = 0x06,
     WitnessScriptHashAddrID = 0x0A,
     HDPrivateKeyID = (0x04, 0x88, 0xad, 0xe4),
     HDPublicKeyID = (0x04, 0x88, 0xb2, 0x1e),
     HDCoinType = 2\<rparr>"

definition RegressionNetParams :: "wire \<Rightarrow> Params" where
  "RegressionNetParams w = \<lparr>
     Name = ''regtest'',
     Net = TestNet w,
     DefaultPort = ''18444'',
     DNSSeeds = [],
     PowLimit = regressionPowLimit,
     PowLimitBits = 0x207fffff,
     BIP0034Height = 100000000,
     BIP0065Height = 1351,
     BIP0066Height = 1251,
     CoinbaseMaturity = 30,
     SubsidyReductionInterval = 525600,
     TargetTimespan = Minute * 30,
     TargetTimePerBlock = Minute * 1,
     RetargetAdjustmentFactor = 16,
     ReduceMinDifficulty = True,
     MinDiffReductionTime = Minute * 20,
     GenerateSupported = True,
     Checkpoints = [],
     RuleChangeActivationThreshold = 108,
     MinerConfirmationWindow = 144,
     Deployments = [
       \<lparr>BitNumber = 28, StartTime = 0, ExpireTime = MaxInt64\<rparr>,
       \<lparr>BitNumber = 0, StartTime = 0, ExpireTime = MaxInt64\<rparr>,
       \<lparr>BitNumber = 1, StartTime = 0, ExpireTime = MaxInt64\<rparr>],
     RelayNonStdTxs = True,
     Bech32HRPSegwit = ''reac'',
     PubKeyHashAddrID = 0x6f,
     ScriptHashAddrID = 0x3a,
     PrivateKeyID = 0xef,
     WitnessPubKeyHashAddrID = 0,
     WitnessScriptHashAddrID = 0,
     HDPrivateKeyID = (0x04, 0x35, 0x83, 0x94),
     HDPublicKeyID = (0x04, 0x35, 0x87, 0xcf),
     HDCoinType = 1\<rparr>"

definition TestNet4Params :: "wire \<Rightarrow> Params" where
  "TestNet4Params w = \<lparr>
     Name = ''testnet4'',
     Net = TestNet4 w,
     DefaultPort = ''25677'',
     DNSSeeds = [],
     PowLimit = testNet4PowLimit,
     PowLimitBits = 504365055,
     BIP0034Height = 76,
     BIP0065Height = 76,
     BIP0066Height = 76,
     CoinbaseMaturity = 30,
     SubsidyReductionInterval = 525600,
     TargetTimespan = Minute * 30,
     TargetTimePerBlock = Minute * 1,
     RetargetAdjustmentFactor = 16,
     ReduceMinDifficulty = True,
     MinDiffReductionTime = Minute * 5,
     GenerateSupported = False,
     Checkpoints = [
     \<lparr>Height = 0, Hash = ''14b1da80b3d734d36a4a2be97ed2c9d49e79c47213d5bcc15b475a1115d28918''\<rparr>],
     RuleChangeActivationThreshold = 1512,
     MinerConfirmationWindow = 2016,
     Deployments = [
       \<lparr>BitNumber = 28, StartTime = 1199145601, ExpireTime = 1230767999\<rparr>,
       \<lparr>BitNumber = 0, StartTime = 1483228800, ExpireTime = 1517356801\<rparr>,
       \<lparr>BitNumber = 1, StartTime = 1483228800, ExpireTime = 1517356801\<rparr>],
     RelayNonStdTxs = True,
     Bech32HRPSegwit = ''teac'',
     PubKeyHashAddrID = 0x6f,
     ScriptHashAddrID = 0x3a,
     PrivateKeyID = 0xef,
     WitnessPubKeyHashAddrID = 0x52,
     WitnessScriptHashAddrID = 0x31,
     HDPrivateKeyID = (0x04, 0x35, 0x83, 0x94),
     HDPublicKeyID = (0x04, 0x35, 0x87, 0xcf),
     HDCoinType = 1\<rparr>"

definition SimNetParams :: "wire \<Rightarrow> Params" where
  "SimNetParams w = \<lparr>
     Name = ''simnet'',
     Net = SimNet w,
     DefaultPort = ''18555'',
     DNSSeeds = [],
     PowLimit = simNetPowLimit,
     PowLimitBits = 0x207fffff,
     BIP0034Height = 0,
     BIP0065Height = 0,
     BIP0066Height = 0,
     CoinbaseMaturity = 30,
     SubsidyReductionInterval = 210000,
     TargetTimespan = Hour * 24 * 14,
     TargetTimePerBlock = Minute * 10,
     RetargetAdjustmentFactor = 16,
     ReduceMinDifficulty = True,
     MinDiffReductionTime = Minute * 20,
     GenerateSupported = True,
     Checkpoints = [],
     RuleChangeActivationThreshold = 75,
     MinerConfirmationWindow = 100,
     Deployments = [
       \<lparr>BitNumber = 28, StartTime = 0, ExpireTime = MaxInt64\<rparr>,
       \<lparr>BitNumber = 0, StartTime = 0, ExpireTime = MaxInt64\<rparr>,
       \<lparr>BitNumber = 1, StartTime = 0, ExpireTime = MaxInt64\<rparr>],
     RelayNonStdTxs = True,
     Bech32HRPSegwit = ''seac'',
     PubKeyHashAddrID = 0x3f,
     ScriptHashAddrID = 0x7b,
     PrivateKeyID = 0x64,
     WitnessPubKeyHashAddrID = 0x19,
     WitnessScriptHashAddrID = 0x28,
     HDPrivateKeyID = (0x04, 0x20, 0xb9, 0x00),
     HDPublicKeyID = (0x04, 0x20, 0xbd, 0x3a),
     HDCoinType = 115\<rparr>"

subsection \<open>Compact difficulty encoding\<close>

text \<open>
  Modelled from the spec: \<open>CompactToBig\<close>, the decoder of the compact ("bits") form of a
  256-bit proof-of-work target, lives in \<open>blockchain/difficulty.go\<close>, a file outside
  the ones modelled here.  This is the standard encoding the specification names: the top
  byte is an exponent to base 256, bit 23 a sign, the low 23 bits a mantissa, and the value
  is \<open>mantissa * 256 ^ (exponent - 3)\<close>.  The comment on the regression-test genesis block
  in \<open>genesis.go\<close> spells out the decoding of \<open>0x207fffff\<close> as \<open>7fffff\<close> followed by 58
  hexadecimal zeros.
\<close>

definition CompactToBig :: "32 word \<Rightarrow> int" where
  "CompactToBig compact =
     (let mantissa = compact AND 0x007fffff;
          isNegative = (compact AND 0x00800000 \<noteq> 0);
          exponent = unat (drop_bit 24 compact);
          bn = (if exponent \<le> 3 then uint (drop_bit (8 * (3 - exponent)) mantissa)
                else push_bit (8 * (exponent - 3)) (uint mantissa))
      in if isNegative then - bn else bn)"

section \<open>The registry\<close>

datatype error = ErrDuplicateNet | ErrUnknownHDKeyID


text \<open>
  The five package-level maps.  A Go \<open>map[K]struct{}\<close> is a set of keys.  The functions
  below read and write these globals; here the state is passed in and handed back.
\<close>

record registry =
  registeredNets :: "BitcoinNet set"
  pubKeyHashAddrIDs :: "byte set"
  scriptHashAddrIDs :: "byte set"
  bech32SegwitPrefixes :: "string set"
  hdPrivToPubKeyIDs :: "byte4 \<rightharpoonup> byte list"

text \<open>The state the variable initialisers (\<open>make(map...)\<close>) leave behind.\<close>

definition emptyRegistry :: registry where
  "emptyRegistry = \<lparr>registeredNets = {}, pubKeyHashAddrIDs = {}, scriptHashAddrIDs = {},
     bech32SegwitPrefixes = {}, hdPrivToPubKeyIDs = Map.empty\<rparr>"

text \<open>\<open>a[:]\<close> for a \<open>[4]byte\<close> array \<open>a\<close>: the slice of its four bytes.\<close>

fun slice4 :: "byte4 \<Rightarrow> byte list" where
  "slice4 (a, b, c, d) = [a, b, c, d]"

text \<open>
  \<open>var key [4]byte; copy(key[:], id)\<close>: \<open>copy\<close> moves as many bytes as the shorter of the
  two holds, and the rest of the fresh array stays zero.
\<close>

definition byteAt :: "byte list \<Rightarrow> nat \<Rightarrow> byte" where
  "byteAt xs i = (if i < length xs then xs ! i else 0)"

definition copy4 :: "byte list \<Rightarrow> byte4" where
  "copy4 xs = (byteAt xs 0, byteAt xs 1, byteAt xs 2, byteAt xs 3)"

text \<open>
  \<open>Register\<close> returns the error (\<open>None\<close> for \<open>nil\<close>) together with the registry it leaves
  behind.  The argument is the \<open>Params\<close> value behind the pointer.  The slice
  \<open>HDPublicKeyID[:]\<close> that Go stores shares its bytes with the array inside the caller's
  \<open>Params\<close>; nothing in the package writes to a \<open>Params\<close> after its construction, so
  the slice is the list of the four bytes the array holds at the call.
\<close>

definition Register :: "Params \<Rightarrow> registry \<Rightarrow> error option \<times> registry" where
  "Register params reg =
     (if Net params \<in> registeredNets reg then (Some ErrDuplicateNet, reg)
      else (None,
        reg\<lparr>registeredNets := insert (Net params) (registeredNets reg),
            pubKeyHashAddrIDs := insert (PubKeyHashAddrID params) (pubKeyHashAddrIDs reg),
            scriptHashAddrIDs := insert (ScriptHashAddrID params) (scriptHashAddrIDs reg),
            hdPrivToPubKeyIDs :=
              (hdPrivToPubKeyIDs reg)(HDPrivateKeyID params \<mapsto> slice4 (HDPublicKeyID params)),
            bech32SegwitPrefixes :=
              insert (Bech32HRPSegwit params @ ''1'') (bech32SegwitPrefixes reg)\<rparr>))"


text \<open>The Go parameter \<open>id\<close> of the three lookups below is written \<open>ident\<close>.\<close>

definition IsPubKeyHashAddrID :: "byte \<Rightarrow> registry \<Rightarrow> bool" where
  "IsPubKeyHashAddrID ident reg = (ident \<in> pubKeyHashAddrIDs reg)"

definition IsScriptHashAddrID :: "byte \<Rightarrow> registry \<Rightarrow> bool" where
  "IsScriptHashAddrID ident reg = (ident \<in> scriptHashAddrIDs reg)"

text \<open>
  \<open>strings.ToLower\<close> of the Go standard library.  On a string of ASCII bytes it adds
  \<open>'a' - 'A'\<close> to every byte between \<open>'A'\<close> and \<open>'Z'\<close>.  On any other string it is
  \<open>strings.Map(unicode.ToLower, s)\<close>, which needs the Unicode case tables; that branch is
  the parameter \<open>mapLower\<close>.
\<close>

definition isASCII :: "string \<Rightarrow> bool" where
  "isASCII s = list_all (\<lambda>c. (of_char c :: nat) < 128) s"

definition isUpper :: "char \<Rightarrow> bool" where
  "isUpper c = (of_char (CHR ''A'') \<le> (of_char c :: nat) \<and> (of_char c :: nat) \<le> of_char (CHR ''Z''))"

definition asciiLower :: "char \<Rightarrow> char" where
  "asciiLower c =
     (if isUpper c
      then char_of ((of_char c :: nat) + (of_char (CHR ''a'') - of_char (CHR ''A'')))
      else c)"

definition ToLower :: "(string \<Rightarrow> string) \<Rightarrow> string \<Rightarrow> string" where
  "ToLower mapLower s =
     (if isASCII s then (if list_ex isUpper s then map asciiLower s else s)
      else mapLower s)"

definition IsBech32SegwitPrefix :: "(string \<Rightarrow> string) \<Rightarrow> string \<Rightarrow> registry \<Rightarrow> bool" where
  "IsBech32SegwitPrefix mapLower prefix reg =
     (ToLower mapLower prefix \<in> bech32SegwitPrefixes reg)"

definition HDPrivateKeyToPublicKeyID :: "byte list \<Rightarrow> registry \<Rightarrow> error + byte list" where
  "HDPrivateKeyToPublicKeyID ident reg =
     (if length ident \<noteq> 4 then Inl ErrUnknownHDKeyID
      else (case hdPrivToPubKeyIDs reg (copy4 ident) of
              None \<Rightarrow> Inl ErrUnknownHDKeyID
            | Some pubBytes \<Rightarrow> Inr pubBytes))"


subsection \<open>Sequences of registrations\<close>

text \<open>
  \<open>registerAll ps reg\<close> is the registry after calling \<open>Register\<close> on each element of \<open>ps\<close>
  in turn, whatever each call returns; \<open>succeeded ps reg\<close> lists, in call order, the
  \<open>Params\<close> whose call returned \<open>nil\<close>.  The registered profiles of a program run are
  \<open>succeeded ps emptyRegistry\<close> for the calls \<open>ps\<close> it has made.
\<close>

fun registerAll :: "Params list \<Rightarrow> registry \<Rightarrow> registry" where
  "registerAll [] reg = reg"
| "registerAll (p # ps) reg = registerAll ps (snd (Register p reg))"

fun succeeded :: "Params list \<Rightarrow> registry \<Rightarrow> Params list" where
  "succeeded [] reg = []"
| "succeeded (p # ps) reg =
     (case Register p reg of
        (None, reg') \<Rightarrow> p # succeeded ps reg'
      | (Some err, reg') \<Rightarrow> succeeded ps reg')"

text \<open>The last element of a list that satisfies a test, if there is one.\<close>

definition lastWhere :: "('a \<Rightarrow> bool) \<Rightarrow> 'a list \<Rightarrow> 'a option" where
  "lastWhere P xs = find P (rev xs)"

subsection \<open>What the indices hold\<close>

text \<open>
  \<open>agrees S reg\<close>: the five indices of \<open>reg\<close> are exactly what the profiles \<open>S\<close>,
  registered in that order, contribute: their magics, their address IDs, their
  human-readable parts followed by \<open>1\<close>, and for each HD private prefix the public prefix
  of the last profile of \<open>S\<close> that carries it.
\<close>

definition agrees :: "Params list \<Rightarrow> registry \<Rightarrow> bool" where
  "agrees S reg \<longleftrightarrow>
     registeredNets reg = Net ` set S
     \<and> pubKeyHashAddrIDs reg = PubKeyHashAddrID ` set S
     \<and> scriptHashAddrIDs reg = ScriptHashAddrID ` set S
     \<and> bech32SegwitPrefixes reg = (\<lambda>p. Bech32HRPSegwit p @ ''1'') ` set S
     \<and> hdPrivToPubKeyIDs reg =
         (\<lambda>k. map_option (\<lambda>p. slice4 (HDPublicKeyID p)) (lastWhere (\<lambda>p. HDPrivateKeyID p = k) S))"

subsection \<open>Sample values for concrete evaluation\<close>

text \<open>
  An arbitrary assignment of four distinct magics (not the values of
  \<open>wire/protocol.go\<close>), and the custom network of the specification's scenario: magic \<open>0xAABBCCDD\<close>, pubkey-hash ID \<open>0x1F\<close>, HD prefixes \<open>01 02 03 04\<close> and
  \<open>05 06 07 08\<close>, human-readable part \<open>xyz\<close>; its remaining fields are those of the
  simulation network.
\<close>

definition sampleWire :: wire where
  "sampleWire = \<lparr>MainNet = 0x00000001, TestNet = 0x00000002, TestNet4 = 0x00000003,
     SimNet = 0x00000004\<rparr>"

definition customParams :: Params where
  "customParams = (SimNetParams sampleWire)\<lparr>Name := ''custom'', Net := 0xAABBCCDD,
     Bech32HRPSegwit := ''xyz'', PubKeyHashAddrID := 0x1F,
     HDPrivateKeyID := (0x01, 0x02, 0x03, 0x04), HDPublicKeyID := (0x05, 0x06, 0x07, 0x08)\<rparr>"

text \<open>
  A second custom network with a fresh magic, but the HD private prefix of the first and
  another HD public prefix.
\<close>

definition otherParams :: Params where
  "otherParams = customParams\<lparr>Name := ''other'', Net := 0xAABBCCDE,
     HDPublicKeyID := (0x09, 0x0a, 0x0b, 0x0c)\<rparr>"

text \<open>A third custom network, with a fresh magic and an upper-case human-readable part.\<close>

definition upperParams :: Params where
  "upperParams = customParams\<lparr>Name := ''upper'', Net := 0xAABBCCDF, Bech32HRPSegwit := ''EAC''\<rparr>"

section \<open>Registration is exclusive\<close>

lemma Register_fresh:
  "Net p \<notin> registeredNets reg \<Longrightarrow> fst (Register p reg) = None"
  by (simp add: Register_def)

lemma Register_duplicate:
  "Net p \<in> registeredNets reg \<Longrightarrow> Register p reg = (Some ErrDuplicateNet, reg)"
  by (simp add: Register_def)

lemma Register_nets:
  "Net p \<notin> registeredNets reg \<Longrightarrow>
   registeredNets (snd (Register p reg)) = insert (Net p) (registeredNets reg)"
  by (simp add: Register_def)

text \<open>
  C1.  When the network magic of \<open>p\<close> is not registered, \<open>Register p\<close> succeeds; on the
  registry it leaves, a further \<open>Register\<close> of any \<open>Params\<close> with that magic (\<open>p\<close> itself
  included) returns \<open>ErrDuplicateNet\<close> and leaves each of the five indices as it was.
\<close>

theorem Register_twice:
  assumes "Net p \<notin> registeredNets reg"
    and "Register p reg = (e1, reg1)"
    and "Net q = Net p"
    and "Register q reg1 = (e2, reg2)"
  shows "e1 = None \<and> e2 = Some ErrDuplicateNet
    \<and> registeredNets reg2 = registeredNets reg1
    \<and> pubKeyHashAddrIDs reg2 = pubKeyHashAddrIDs reg1
    \<and> scriptHashAddrIDs reg2 = scriptHashAddrIDs reg1
    \<and> bech32SegwitPrefixes reg2 = bech32SegwitPrefixes reg1
    \<and> hdPrivToPubKeyIDs reg2 = hdPrivToPubKeyIDs reg1"
proof -
  from assms(1,2) have first: "e1 = None" and reg1: "reg1 = snd (Register p reg)"
    using Register_fresh [of p reg] by auto
  from assms(1) reg1 have "Net p \<in> registeredNets reg1"
    by (simp add: Register_nets)
  with assms(3) have "Register q reg1 = (Some ErrDuplicateNet, reg1)"
    by (simp add: Register_duplicate)
  with assms(4) have "e2 = Some ErrDuplicateNet" and "reg2 = reg1"
    by simp_all
  with first show ?thesis by simp
qed

theorem Register_twice_witness:
  "fst (Register customParams emptyRegistry) = None
   \<and> fst (Register customParams (snd (Register customParams emptyRegistry)))
       = Some ErrDuplicateNet
   \<and> bech32SegwitPrefixes (snd (Register customParams (snd (Register customParams emptyRegistry))))
       = bech32SegwitPrefixes (snd (Register customParams emptyRegistry))"
proof -
  have fresh: "Net customParams \<notin> registeredNets emptyRegistry"
    by (simp add: emptyRegistry_def)
  show ?thesis
    using Register_twice [OF fresh surjective_pairing refl surjective_pairing]
    by simp
qed

section \<open>Address identifiers\<close>

text \<open>
  C5.  On the registry a successful \<open>Register p\<close> leaves, \<open>IsPubKeyHashAddrID\<close> holds of
  \<open>p\<close>'s pubkey-hash ID and \<open>IsScriptHashAddrID\<close> of its script-hash ID.
\<close>

theorem Register_addr_ids:
  assumes "Register p reg = (None, reg')"
  shows "IsPubKeyHashAddrID (PubKeyHashAddrID p) reg' \<and> IsScriptHashAddrID (ScriptHashAddrID p) reg'"
  using assms
  by (auto simp: Register_def IsPubKeyHashAddrID_def IsScriptHashAddrID_def split: if_splits)

theorem Register_addr_ids_witness:
  "Register customParams emptyRegistry = (None, snd (Register customParams emptyRegistry))
   \<and> IsPubKeyHashAddrID 0x1F (snd (Register customParams emptyRegistry))
   \<and> IsScriptHashAddrID 0x7b (snd (Register customParams emptyRegistry))"
proof -
  have ok: "Register customParams emptyRegistry = (None, snd (Register customParams emptyRegistry))"
    by (simp add: Register_def emptyRegistry_def)
  have ids: "PubKeyHashAddrID customParams = 0x1F" "ScriptHashAddrID customParams = 0x7b"
    by (simp_all add: customParams_def SimNetParams_def)
  show ?thesis
    using ok Register_addr_ids [OF ok] by (simp add: ids)
qed

section \<open>Invariant of the indices\<close>

lemma lastWhere_snoc:
  "lastWhere P (xs @ [x]) = (if P x then Some x else lastWhere P xs)"
  by (simp add: lastWhere_def)

lemma lastWhere_append:
  "lastWhere P (xs @ ys) = (case lastWhere P ys of Some y \<Rightarrow> Some y | None \<Rightarrow> lastWhere P xs)"
  by (induction ys rule: rev_induct) (simp_all add: lastWhere_def)

lemma lastWhere_None: "lastWhere P xs = None \<longleftrightarrow> (\<forall>x\<in>set xs. \<not> P x)"
  by (auto simp: lastWhere_def find_None_iff)

lemma lastWhere_Some: "lastWhere P xs = Some x \<Longrightarrow> x \<in> set xs \<and> P x"
proof -
  assume "lastWhere P xs = Some x"
  then have "find P (rev xs) = Some x" by (simp add: lastWhere_def)
  then obtain i where "i < length (rev xs)" "P (rev xs ! i)" "x = rev xs ! i"
    unfolding find_Some_iff by blast
  then have "x \<in> set (rev xs)" "P x" using nth_mem by blast+
  then show ?thesis by simp
qed

lemma agrees_empty: "agrees [] emptyRegistry"
  by (simp add: agrees_def emptyRegistry_def lastWhere_def)

lemma agrees_Register:
  assumes "agrees S reg" and "Net p \<notin> registeredNets reg"
  shows "agrees (S @ [p]) (snd (Register p reg))"
proof -
  have reg': "snd (Register p reg) =
     reg\<lparr>registeredNets := insert (Net p) (registeredNets reg),
         pubKeyHashAddrIDs := insert (PubKeyHashAddrID p) (pubKeyHashAddrIDs reg),
         scriptHashAddrIDs := insert (ScriptHashAddrID p) (scriptHashAddrIDs reg),
         hdPrivToPubKeyIDs := (hdPrivToPubKeyIDs reg)(HDPrivateKeyID p \<mapsto> slice4 (HDPublicKeyID p)),
         bech32SegwitPrefixes := insert (Bech32HRPSegwit p @ ''1'') (bech32SegwitPrefixes reg)\<rparr>"
    using assms(2) by (simp add: Register_def)
  have hd: "(hdPrivToPubKeyIDs reg)(HDPrivateKeyID p \<mapsto> slice4 (HDPublicKeyID p)) =
      (\<lambda>k. map_option (\<lambda>p. slice4 (HDPublicKeyID p))
             (lastWhere (\<lambda>p. HDPrivateKeyID p = k) (S @ [p])))"
    using assms(1) by (auto simp: agrees_def lastWhere_snoc fun_eq_iff)
  show ?thesis
    unfolding agrees_def reg' using assms(1) hd
    by (simp add: agrees_def)
qed

lemma agrees_registerAll:
  "agrees S reg \<Longrightarrow> agrees (S @ succeeded ps reg) (registerAll ps reg)"
proof (induction ps arbitrary: S reg)
  case Nil
  then show ?case by simp
next
  case (Cons p ps)
  show ?case
  proof (cases "Net p \<in> registeredNets reg")
    case True
    then have "Register p reg = (Some ErrDuplicateNet, reg)"
      by (rule Register_duplicate)
    with Cons show ?thesis by simp
  next
    case False
    then have ok: "Register p reg = (None, snd (Register p reg))"
      by (simp add: Register_def)
    from Cons.prems False have "agrees (S @ [p]) (snd (Register p reg))"
      by (rule agrees_Register)
    then have "agrees ((S @ [p]) @ succeeded ps (snd (Register p reg)))
                 (registerAll ps (snd (Register p reg)))"
      by (rule Cons.IH)
    moreover have "succeeded (p # ps) reg = p # succeeded ps (snd (Register p reg))"
      by (subst succeeded.simps(2), subst ok) simp
    ultimately show ?thesis by simp
  qed
qed

lemma agrees_run: "agrees (succeeded ps emptyRegistry) (registerAll ps emptyRegistry)"
  using agrees_registerAll [OF agrees_empty, of ps] by simp

lemma length_slice4: "length (slice4 k) = 4"
  by (cases k) simp

lemma copy4_slice4: "copy4 (slice4 k) = k"
  by (cases k) (simp add: copy4_def byteAt_def)

lemma slice4_copy4: "length xs = 4 \<Longrightarrow> slice4 (copy4 xs) = xs"
proof -
  assume "length xs = 4"
  then obtain a b c d where "xs = [a, b, c, d]"
    by (auto simp: length_Suc_conv numeral_eq_Suc)
  then show ?thesis by (simp add: copy4_def byteAt_def)
qed

subsection \<open>Fields of the sample networks\<close>

lemma customParams_fields:
  "Net customParams = 0xAABBCCDD"
  "PubKeyHashAddrID customParams = 0x1F"
  "ScriptHashAddrID customParams = 0x7b"
  "Bech32HRPSegwit customParams = ''xyz''"
  "HDPrivateKeyID customParams = (0x01, 0x02, 0x03, 0x04)"
  "HDPublicKeyID customParams = (0x05, 0x06, 0x07, 0x08)"
  by (simp_all add: customParams_def SimNetParams_def)

lemma otherParams_fields:
  "Net otherParams = 0xAABBCCDE"
  "PubKeyHashAddrID otherParams = 0x1F"
  "ScriptHashAddrID otherParams = 0x7b"
  "Bech32HRPSegwit otherParams = ''xyz''"
  "HDPrivateKeyID otherParams = (0x01, 0x02, 0x03, 0x04)"
  "HDPublicKeyID otherParams = (0x09, 0x0a, 0x0b, 0x0c)"
  by (simp_all add: otherParams_def customParams_fields)

lemma sampleWire_fields:
  "MainNet sampleWire = 0x00000001"
  "TestNet sampleWire = 0x00000002"
  "TestNet4 sampleWire = 0x00000003"
  "SimNet sampleWire = 0x00000004"
  by (simp_all add: sampleWire_def)

lemma upperParams_fields:
  "Net upperParams = 0xAABBCCDF"
  "Bech32HRPSegwit upperParams = ''EAC''"
  by (simp_all add: upperParams_def)

lemma MainNetParams_fields:
  "Net (MainNetParams w) = MainNet w"
  "PubKeyHashAddrID (MainNetParams w) = 0x30"
  "ScriptHashAddrID (MainNetParams w) = 0x32"
  "Bech32HRPSegwit (MainNetParams w) = ''eac''"
  "HDPrivateKeyID (MainNetParams w) = (0x04, 0x88, 0xad, 0xe4)"
  "HDPublicKeyID (MainNetParams w) = (0x04, 0x88, 0xb2, 0x1e)"
  by (simp_all add: MainNetParams_def)




lemma succeeded_custom_other:
  "succeeded [customParams, otherParams] emptyRegistry = [customParams, otherParams]"
  by (simp add: Register_def emptyRegistry_def customParams_fields otherParams_fields)

section \<open>HD key prefixes\<close>

lemma HDPrivateKeyToPublicKeyID_agrees:
  assumes "agrees S reg"
  shows "HDPrivateKeyToPublicKeyID ident reg =
     (if length ident \<noteq> 4 then Inl ErrUnknownHDKeyID
      else case lastWhere (\<lambda>p. HDPrivateKeyID p = copy4 ident) S of
             None \<Rightarrow> Inl ErrUnknownHDKeyID
           | Some q \<Rightarrow> Inr (slice4 (HDPublicKeyID q)))"
  using assms
  by (simp add: HDPrivateKeyToPublicKeyID_def agrees_def split: option.splits)

text \<open>
  C2, as the code has it.  Let \<open>S\<close> be the profiles registered so far, oldest first.
  \<open>HDPrivateKeyToPublicKeyID\<close> fails, and then with \<open>ErrUnknownHDKeyID\<close>, exactly when its
  argument is not four bytes long or is the HD private prefix of no profile of \<open>S\<close>.
  Otherwise it returns the HD public prefix of the last profile of \<open>S\<close> with that private
  prefix.  Hence the HD private prefix of a registered \<open>p\<close> is answered with \<open>p\<close>'s own HD
  public prefix whenever every profile registered after \<open>p\<close> with the same private prefix
  has the same public prefix.
\<close>

theorem HDPrivateKeyToPublicKeyID_registered:
  assumes "S = succeeded ps emptyRegistry" and "reg = registerAll ps emptyRegistry"
  shows "(HDPrivateKeyToPublicKeyID ident reg = Inl ErrUnknownHDKeyID
            \<longleftrightarrow> length ident \<noteq> 4 \<or> copy4 ident \<notin> HDPrivateKeyID ` set S)
    \<and> (\<forall>e. HDPrivateKeyToPublicKeyID ident reg = Inl e \<longrightarrow> e = ErrUnknownHDKeyID)
    \<and> (\<forall>q. length ident = 4 \<and> lastWhere (\<lambda>p. HDPrivateKeyID p = copy4 ident) S = Some q
          \<longrightarrow> HDPrivateKeyToPublicKeyID ident reg = Inr (slice4 (HDPublicKeyID q)))
    \<and> (\<forall>xs p ys. S = xs @ p # ys
            \<and> (\<forall>q\<in>set ys. HDPrivateKeyID q = HDPrivateKeyID p \<longrightarrow> HDPublicKeyID q = HDPublicKeyID p)
          \<longrightarrow> HDPrivateKeyToPublicKeyID (slice4 (HDPrivateKeyID p)) reg
                = Inr (slice4 (HDPublicKeyID p)))"
proof -
  have ag: "agrees S reg"
    unfolding assms by (rule agrees_run)
  note eq = HDPrivateKeyToPublicKeyID_agrees [OF ag]
  have unknown: "HDPrivateKeyToPublicKeyID ident reg = Inl ErrUnknownHDKeyID
            \<longleftrightarrow> length ident \<noteq> 4 \<or> copy4 ident \<notin> HDPrivateKeyID ` set S"
  proof (cases "lastWhere (\<lambda>p. HDPrivateKeyID p = copy4 ident) S")
    case None
    then have "copy4 ident \<notin> HDPrivateKeyID ` set S"
      by (auto simp: lastWhere_None)
    with None show ?thesis by (simp add: eq)
  next
    case (Some q)
    from lastWhere_Some [OF Some] have "q \<in> set S" and "HDPrivateKeyID q = copy4 ident"
      by simp_all
    then have "copy4 ident \<in> HDPrivateKeyID ` set S"
      by (metis imageI)
    with Some show ?thesis by (simp add: eq)
  qed
  have only: "\<forall>e. HDPrivateKeyToPublicKeyID ident reg = Inl e \<longrightarrow> e = ErrUnknownHDKeyID"
    by (auto simp: eq split: if_splits option.splits)
  have latest: "\<forall>q. length ident = 4 \<and> lastWhere (\<lambda>p. HDPrivateKeyID p = copy4 ident) S = Some q
          \<longrightarrow> HDPrivateKeyToPublicKeyID ident reg = Inr (slice4 (HDPublicKeyID q))"
    by (simp add: eq)
  have round: "HDPrivateKeyToPublicKeyID (slice4 (HDPrivateKeyID p)) reg
                = Inr (slice4 (HDPublicKeyID p))"
    if S: "S = xs @ p # ys"
      and ys: "\<forall>q\<in>set ys. HDPrivateKeyID q = HDPrivateKeyID p \<longrightarrow> HDPublicKeyID q = HDPublicKeyID p"
    for xs p ys
  proof -
    let ?P = "\<lambda>q. HDPrivateKeyID q = HDPrivateKeyID p"
    have "lastWhere ?P S = (case lastWhere ?P ys of Some y \<Rightarrow> Some y | None \<Rightarrow> Some p)"
      unfolding S using lastWhere_append [of ?P "xs @ [p]" ys]
      by (simp add: lastWhere_snoc split: option.splits)
    then obtain q where q: "lastWhere ?P S = Some q" and pub: "HDPublicKeyID q = HDPublicKeyID p"
      using ys by (auto split: option.splits dest: lastWhere_Some)
    have "HDPrivateKeyToPublicKeyID (slice4 (HDPrivateKeyID p)) reg = Inr (slice4 (HDPublicKeyID q))"
      using q
      by (simp add: HDPrivateKeyToPublicKeyID_agrees [OF ag] length_slice4 copy4_slice4)
    with pub show ?thesis by simp
  qed
  from unknown only latest round show ?thesis by blast
qed

theorem HDPrivateKeyToPublicKeyID_registered_witness:
  "HDPrivateKeyToPublicKeyID [0x01, 0x02, 0x03, 0x04]
       (registerAll [customParams, otherParams] emptyRegistry) = Inr [0x09, 0x0a, 0x0b, 0x0c]
   \<and> HDPrivateKeyToPublicKeyID [0x01, 0x02, 0x03]
       (registerAll [customParams, otherParams] emptyRegistry) = Inl ErrUnknownHDKeyID
   \<and> HDPrivateKeyToPublicKeyID [0x01, 0x02, 0x03, 0x05]
       (registerAll [customParams, otherParams] emptyRegistry) = Inl ErrUnknownHDKeyID"
proof -
  let ?reg = "registerAll [customParams, otherParams] emptyRegistry"
  note S = succeeded_custom_other
  note inst = HDPrivateKeyToPublicKeyID_registered [OF S [symmetric] refl]
  have parts: "[customParams, otherParams] = [customParams] @ otherParams # []"
    by simp
  from inst [of "slice4 (HDPrivateKeyID otherParams)"] parts
  have "HDPrivateKeyToPublicKeyID (slice4 (HDPrivateKeyID otherParams)) ?reg
          = Inr (slice4 (HDPublicKeyID otherParams))"
    by (metis empty_iff empty_set)
  then have a: "HDPrivateKeyToPublicKeyID [0x01, 0x02, 0x03, 0x04] ?reg = Inr [0x09, 0x0a, 0x0b, 0x0c]"
    by (simp add: otherParams_fields)
  from inst [of "[0x01, 0x02, 0x03]"]
  have b: "HDPrivateKeyToPublicKeyID [0x01, 0x02, 0x03] ?reg = Inl ErrUnknownHDKeyID"
    by simp
  from inst [of "[0x01, 0x02, 0x03, 0x05]"]
  have c: "HDPrivateKeyToPublicKeyID [0x01, 0x02, 0x03, 0x05] ?reg = Inl ErrUnknownHDKeyID"
    by (simp add: copy4_def byteAt_def customParams_fields otherParams_fields)
  from a b c show ?thesis by simp
qed

text \<open>
  C2 as stated fails: \<open>customParams\<close> and \<open>otherParams\<close> both register, and the HD
  private prefix of \<open>customParams\<close> is then answered with the public prefix of
  \<open>otherParams\<close>, not its own.
\<close>

theorem HDPrivateKeyToPublicKeyID_roundtrip_counterexample:
  "succeeded [customParams, otherParams] emptyRegistry = [customParams, otherParams]
   \<and> HDPrivateKeyToPublicKeyID (slice4 (HDPrivateKeyID customParams))
        (registerAll [customParams, otherParams] emptyRegistry) = Inr [0x09, 0x0a, 0x0b, 0x0c]
   \<and> slice4 (HDPublicKeyID customParams) = [0x05, 0x06, 0x07, 0x08]
   \<and> HDPrivateKeyToPublicKeyID (slice4 (HDPrivateKeyID customParams))
        (registerAll [customParams, otherParams] emptyRegistry)
       \<noteq> Inr (slice4 (HDPublicKeyID customParams))"
  by (simp add: Register_def emptyRegistry_def customParams_fields otherParams_fields
      HDPrivateKeyToPublicKeyID_def copy4_def byteAt_def)

section \<open>The duplicate check reads the magic alone\<close>

text \<open>
  C9.  \<open>Register\<close> succeeds exactly when the magic is new, whatever else the registry
  already holds: address IDs, human-readable part or HD private prefix shared with earlier
  profiles do not matter.  After a successful \<open>Register p\<close> the HD private prefix of \<open>p\<close>
  is answered with the HD public prefix of \<open>p\<close>, also when an earlier profile had mapped
  that private prefix to something else.
\<close>

theorem Register_checks_magic_only:
  "(fst (Register p reg) = None \<longleftrightarrow> Net p \<notin> registeredNets reg)
   \<and> (Net p \<notin> registeredNets reg \<longrightarrow>
        HDPrivateKeyToPublicKeyID (slice4 (HDPrivateKeyID p)) (snd (Register p reg))
          = Inr (slice4 (HDPublicKeyID p)))"
  by (simp add: Register_def HDPrivateKeyToPublicKeyID_def length_slice4 copy4_slice4)

lemma Register_custom:
  "Register customParams emptyRegistry = (None, snd (Register customParams emptyRegistry))"
  by (simp add: Register_def emptyRegistry_def)

lemma custom_registered:
  "registeredNets (snd (Register customParams emptyRegistry)) = {0xAABBCCDD}"
  "pubKeyHashAddrIDs (snd (Register customParams emptyRegistry)) = {0x1F}"
  "scriptHashAddrIDs (snd (Register customParams emptyRegistry)) = {0x7b}"
  "bech32SegwitPrefixes (snd (Register customParams emptyRegistry)) = {''xyz1''}"
  "hdPrivToPubKeyIDs (snd (Register customParams emptyRegistry)) (0x01, 0x02, 0x03, 0x04)
     = Some [0x05, 0x06, 0x07, 0x08]"
  by (simp_all add: Register_def emptyRegistry_def customParams_fields)

theorem Register_checks_magic_only_witness:
  "PubKeyHashAddrID otherParams \<in> pubKeyHashAddrIDs (snd (Register customParams emptyRegistry))
   \<and> ScriptHashAddrID otherParams \<in> scriptHashAddrIDs (snd (Register customParams emptyRegistry))
   \<and> Bech32HRPSegwit otherParams @ ''1''
        \<in> bech32SegwitPrefixes (snd (Register customParams emptyRegistry))
   \<and> HDPrivateKeyToPublicKeyID [0x01, 0x02, 0x03, 0x04] (snd (Register customParams emptyRegistry))
        = Inr [0x05, 0x06, 0x07, 0x08]
   \<and> Net otherParams \<notin> registeredNets (snd (Register customParams emptyRegistry))
   \<and> fst (Register otherParams (snd (Register customParams emptyRegistry))) = None
   \<and> HDPrivateKeyToPublicKeyID [0x01, 0x02, 0x03, 0x04]
        (snd (Register otherParams (snd (Register customParams emptyRegistry))))
        = Inr [0x09, 0x0a, 0x0b, 0x0c]"
proof -
  let ?reg = "snd (Register customParams emptyRegistry)"
  have shared: "PubKeyHashAddrID otherParams \<in> pubKeyHashAddrIDs ?reg"
    "ScriptHashAddrID otherParams \<in> scriptHashAddrIDs ?reg"
    "Bech32HRPSegwit otherParams @ ''1'' \<in> bech32SegwitPrefixes ?reg"
    by (simp_all add: custom_registered otherParams_fields)
  have before: "HDPrivateKeyToPublicKeyID [0x01, 0x02, 0x03, 0x04] ?reg = Inr [0x05, 0x06, 0x07, 0x08]"
    by (simp add: HDPrivateKeyToPublicKeyID_def copy4_def byteAt_def custom_registered)
  have fresh: "Net otherParams \<notin> registeredNets ?reg"
    by (simp add: custom_registered otherParams_fields)
  from Register_checks_magic_only [of otherParams ?reg] fresh
  have after: "fst (Register otherParams ?reg) = None"
    "HDPrivateKeyToPublicKeyID [0x01, 0x02, 0x03, 0x04] (snd (Register otherParams ?reg))
       = Inr [0x09, 0x0a, 0x0b, 0x0c]"
    by (simp_all add: otherParams_fields)
  from shared before fresh after show ?thesis by simp
qed

section \<open>Bech32 prefixes\<close>

lemma asciiLower_isUpper: "isUpper c \<Longrightarrow> asciiLower c \<noteq> c"
proof -
  assume up: "isUpper c"
  then have "(of_char c :: nat) + 32 < 256"
    by (simp add: isUpper_def)
  then have "(of_char (char_of ((of_char c :: nat) + 32)) :: nat) = of_char c + 32"
    by simp
  then have "char_of ((of_char c :: nat) + 32) \<noteq> c"
    by (metis add_cancel_right_right zero_neq_numeral)
  with up show ?thesis by (simp add: asciiLower_def)
qed

lemma map_asciiLower_fixed: "\<not> list_ex isUpper s \<Longrightarrow> map asciiLower s = s"
  by (induction s) (simp_all add: asciiLower_def)

lemma map_asciiLower_changes: "list_ex isUpper s \<Longrightarrow> map asciiLower s \<noteq> s"
  by (induction s) (auto simp: asciiLower_isUpper)

lemma ToLower_ASCII: "isASCII s \<Longrightarrow> ToLower u s = map asciiLower s"
  by (simp add: ToLower_def map_asciiLower_fixed)

lemma ToLower_literals:
  "ToLower u ''eac1'' = ''eac1''"
  "ToLower u ''EAC1'' = ''eac1''"
  "ToLower u ''Eac1'' = ''eac1''"
  "ToLower u ''eac'' = ''eac''"
  by (simp_all add: ToLower_def isASCII_def isUpper_def asciiLower_def char_of_def bit_0)

lemma IsBech32SegwitPrefix_agrees:
  "agrees S reg \<Longrightarrow>
   IsBech32SegwitPrefix u q reg \<longleftrightarrow> ToLower u q \<in> (\<lambda>p. Bech32HRPSegwit p @ ''1'') ` set S"
  by (simp add: IsBech32SegwitPrefix_def agrees_def)

text \<open>
  C4.  Let \<open>S\<close> be the registered profiles.  \<open>IsBech32SegwitPrefix\<close> lower-cases its
  argument and tests it against the strings \<open>hrp @ ''1''\<close> of \<open>S\<close>.  So \<open>eac\<close> without
  the separator is never a known prefix, and once a profile with human-readable part
  \<open>eac\<close> is registered, \<open>eac1\<close>, \<open>EAC1\<close> and \<open>Eac1\<close> all are.
\<close>

theorem IsBech32SegwitPrefix_registered:
  assumes "S = succeeded ps emptyRegistry" and "reg = registerAll ps emptyRegistry"
  shows "(\<forall>q. IsBech32SegwitPrefix u q reg
            \<longleftrightarrow> ToLower u q \<in> (\<lambda>p. Bech32HRPSegwit p @ ''1'') ` set S)
    \<and> \<not> IsBech32SegwitPrefix u ''eac'' reg
    \<and> ((\<exists>p\<in>set S. Bech32HRPSegwit p = ''eac'') \<longrightarrow>
          IsBech32SegwitPrefix u ''eac1'' reg \<and> IsBech32SegwitPrefix u ''EAC1'' reg
          \<and> IsBech32SegwitPrefix u ''Eac1'' reg)"
proof -
  have ag: "agrees S reg"
    unfolding assms by (rule agrees_run)
  note eq = IsBech32SegwitPrefix_agrees [OF ag]
  have "''eac'' \<noteq> h @ ''1''" for h :: string
  proof
    assume "''eac'' = h @ ''1''"
    then have "last ''eac'' = last (h @ ''1'')" by (rule arg_cong)
    then show False by simp
  qed
  then have missing: "\<not> IsBech32SegwitPrefix u ''eac'' reg"
    by (auto simp: eq ToLower_literals)
  have present: "IsBech32SegwitPrefix u ''eac1'' reg \<and> IsBech32SegwitPrefix u ''EAC1'' reg
          \<and> IsBech32SegwitPrefix u ''Eac1'' reg"
    if "\<exists>p\<in>set S. Bech32HRPSegwit p = ''eac''"
  proof -
    from that obtain p where "p \<in> set S" and "Bech32HRPSegwit p @ ''1'' = ''eac1''"
      by auto
    then have "''eac1'' \<in> (\<lambda>p. Bech32HRPSegwit p @ ''1'') ` set S"
      by (metis imageI)
    then show ?thesis
      by (simp add: eq ToLower_literals)
  qed
  from eq missing present show ?thesis by blast
qed

lemma succeeded_main:
  "succeeded [MainNetParams sampleWire] emptyRegistry = [MainNetParams sampleWire]"
  by (simp add: Register_def emptyRegistry_def)

theorem IsBech32SegwitPrefix_registered_witness:
  "IsBech32SegwitPrefix (\<lambda>s. s) ''eac1'' (registerAll [MainNetParams sampleWire] emptyRegistry)
   \<and> IsBech32SegwitPrefix (\<lambda>s. s) ''EAC1'' (registerAll [MainNetParams sampleWire] emptyRegistry)
   \<and> IsBech32SegwitPrefix (\<lambda>s. s) ''Eac1'' (registerAll [MainNetParams sampleWire] emptyRegistry)
   \<and> \<not> IsBech32SegwitPrefix (\<lambda>s. s) ''eac'' (registerAll [MainNetParams sampleWire] emptyRegistry)"
proof -
  let ?reg = "registerAll [MainNetParams sampleWire] emptyRegistry"
  have main: "\<exists>p\<in>set [MainNetParams sampleWire]. Bech32HRPSegwit p = ''eac''"
    by (simp add: MainNetParams_fields)
  from IsBech32SegwitPrefix_registered [OF succeeded_main [symmetric] refl, of "\<lambda>s. s"]
  have "\<not> IsBech32SegwitPrefix (\<lambda>s. s) ''eac'' ?reg"
    and "(\<exists>p\<in>set [MainNetParams sampleWire]. Bech32HRPSegwit p = ''eac'') \<longrightarrow>
          IsBech32SegwitPrefix (\<lambda>s. s) ''eac1'' ?reg \<and> IsBech32SegwitPrefix (\<lambda>s. s) ''EAC1'' ?reg
          \<and> IsBech32SegwitPrefix (\<lambda>s. s) ''Eac1'' ?reg"
    by blast+
  with main show ?thesis by blast
qed

lemma asciiLower_not_upper: "\<not> isUpper (asciiLower c)"
proof (cases "isUpper c")
  case True
  then have "(of_char c :: nat) + 32 < 256" and "90 < (of_char c :: nat) + 32"
    by (simp_all add: isUpper_def)
  then have "(90::nat) < of_char (char_of ((of_char c :: nat) + 32))"
    by simp
  with True show ?thesis
    by (simp add: asciiLower_def isUpper_def)
next
  case False
  then show ?thesis by (simp add: asciiLower_def)
qed

lemma map_asciiLower_no_upper: "\<not> list_ex isUpper (map asciiLower s)"
  by (induction s) (simp_all add: asciiLower_not_upper)

lemma ToLower_no_upper:
  assumes "\<forall>s. \<not> isASCII s \<longrightarrow> \<not> list_ex isUpper (u s)"
  shows "\<not> list_ex isUpper (ToLower u q)"
  using assms by (simp add: ToLower_def map_asciiLower_no_upper)

text \<open>
  C10, as the code has it.  The prefix is stored as written and the query is lower-cased.
  \<open>ToLower\<close> yields no byte \<open>A\<close> to \<open>Z\<close> (for the Unicode branch this is the one thing
  assumed of \<open>u\<close>).  So when \<open>p\<close> registers with a human-readable part that has a letter
  \<open>A\<close> to \<open>Z\<close>, the entry it stores matches no query at all: every answer after the
  registration is the answer before it.  For every \<open>q\<close> that lower-cases to the same string
  as the stored prefix (the stored string itself among them), that answer is whether the
  lower-case form had been stored already.
\<close>

theorem IsBech32SegwitPrefix_uppercase_hrp:
  assumes "Register p reg = (None, reg')"
    and "list_ex isUpper (Bech32HRPSegwit p)"
    and "\<forall>s. \<not> isASCII s \<longrightarrow> \<not> list_ex isUpper (u s)"
  shows "ToLower u q \<noteq> Bech32HRPSegwit p @ ''1''
    \<and> (IsBech32SegwitPrefix u q reg' \<longleftrightarrow> IsBech32SegwitPrefix u q reg)
    \<and> (ToLower u q = ToLower u (Bech32HRPSegwit p @ ''1'') \<longrightarrow>
         (IsBech32SegwitPrefix u q reg'
            \<longleftrightarrow> ToLower u (Bech32HRPSegwit p @ ''1'') \<in> bech32SegwitPrefixes reg))
    \<and> (isASCII (Bech32HRPSegwit p) \<longrightarrow>
         ToLower u (Bech32HRPSegwit p @ ''1'') = map asciiLower (Bech32HRPSegwit p) @ ''1'')"
proof -
  let ?H = "Bech32HRPSegwit p"
  have "list_ex isUpper (?H @ ''1'')"
    using assms(2) by simp
  moreover have "\<not> list_ex isUpper (ToLower u q)"
    using assms(3) by (rule ToLower_no_upper)
  ultimately have differs: "ToLower u q \<noteq> ?H @ ''1''"
    by metis
  from assms(1) have "bech32SegwitPrefixes reg' = insert (?H @ ''1'') (bech32SegwitPrefixes reg)"
    by (auto simp: Register_def split: if_splits)
  with differs have same: "IsBech32SegwitPrefix u q reg' \<longleftrightarrow> IsBech32SegwitPrefix u q reg"
    by (simp add: IsBech32SegwitPrefix_def)
  have casing: "IsBech32SegwitPrefix u q reg'
            \<longleftrightarrow> ToLower u (?H @ ''1'') \<in> bech32SegwitPrefixes reg"
    if "ToLower u q = ToLower u (?H @ ''1'')"
    using same that by (simp add: IsBech32SegwitPrefix_def)
  have ascii: "ToLower u (?H @ ''1'') = map asciiLower ?H @ ''1''" if "isASCII ?H"
  proof -
    from that have "isASCII (?H @ ''1'')"
      by (simp add: isASCII_def)
    then have "ToLower u (?H @ ''1'') = map asciiLower (?H @ ''1'')"
      by (rule ToLower_ASCII)
    then show ?thesis
      by (simp add: asciiLower_def isUpper_def)
  qed
  from differs same casing ascii show ?thesis by blast
qed

lemma Register_upper:
  "Register upperParams emptyRegistry = (None, snd (Register upperParams emptyRegistry))"
  by (simp add: Register_def emptyRegistry_def)

theorem IsBech32SegwitPrefix_uppercase_hrp_witness:
  "''EAC1'' \<in> bech32SegwitPrefixes (snd (Register upperParams emptyRegistry))
   \<and> \<not> IsBech32SegwitPrefix (map asciiLower) ''EAC1'' (snd (Register upperParams emptyRegistry))
   \<and> \<not> IsBech32SegwitPrefix (map asciiLower) ''eac1'' (snd (Register upperParams emptyRegistry))"
proof -
  let ?reg' = "snd (Register upperParams emptyRegistry)"
  have upper: "list_ex isUpper (Bech32HRPSegwit upperParams)"
    by (simp add: upperParams_fields isUpper_def)
  have branch: "\<forall>s. \<not> isASCII s \<longrightarrow> \<not> list_ex isUpper (map asciiLower s)"
    by (simp add: map_asciiLower_no_upper)
  have stored: "''EAC1'' \<in> bech32SegwitPrefixes ?reg'"
    by (simp add: Register_def emptyRegistry_def upperParams_fields)
  have none: "\<not> IsBech32SegwitPrefix (map asciiLower) q emptyRegistry" for q
    by (simp add: IsBech32SegwitPrefix_def emptyRegistry_def)
  note inst = IsBech32SegwitPrefix_uppercase_hrp [OF Register_upper upper branch]
  from inst [of "''EAC1''"] none have "\<not> IsBech32SegwitPrefix (map asciiLower) ''EAC1'' ?reg'"
    by blast
  moreover from inst [of "''eac1''"] none
  have "\<not> IsBech32SegwitPrefix (map asciiLower) ''eac1'' ?reg'"
    by blast
  ultimately show ?thesis using stored by simp
qed

text \<open>
  C10 as stated fails once the lower-case form is registered too: after the main network
  (\<open>eac\<close>) and \<open>upperParams\<close> (\<open>EAC\<close>), the stored string \<open>EAC1\<close> is a known prefix.
\<close>

theorem IsBech32SegwitPrefix_uppercase_hrp_counterexample:
  "succeeded [MainNetParams sampleWire, upperParams] emptyRegistry
     = [MainNetParams sampleWire, upperParams]
   \<and> list_ex isUpper (Bech32HRPSegwit upperParams)
   \<and> ''EAC1'' \<in> bech32SegwitPrefixes (registerAll [MainNetParams sampleWire, upperParams] emptyRegistry)
   \<and> IsBech32SegwitPrefix (\<lambda>s. s) ''EAC1''
        (registerAll [MainNetParams sampleWire, upperParams] emptyRegistry)"
  by (simp add: Register_def emptyRegistry_def MainNetParams_fields upperParams_fields
      sampleWire_fields IsBech32SegwitPrefix_def ToLower_literals isUpper_def)

section \<open>Package initialisation\<close>



lemma registerAll_snoc: "registerAll (ps @ [p]) reg = snd (Register p (registerAll ps reg))"
  by (induction ps arbitrary: reg) simp_all











section \<open>Checkpoints and deployments of the built-in networks\<close>

text \<open>
  C7.  For each built-in network the checkpoint heights are strictly increasing from
  oldest to newest (the regression-test and simulation networks have no checkpoints).
\<close>

theorem builtin_checkpoints_increasing:
  "sorted_wrt (<) (map Height (Checkpoints (MainNetParams w)))
   \<and> sorted_wrt (<) (map Height (Checkpoints (TestNet4Params w)))
   \<and> sorted_wrt (<) (map Height (Checkpoints (RegressionNetParams w)))
   \<and> sorted_wrt (<) (map Height (Checkpoints (SimNetParams w)))"
proof -
  have "sorted_wrt (<) (map Height (Checkpoints (MainNetParams w)))"
    by (simp add: MainNetParams_def)
  moreover have "sorted_wrt (<) (map Height (Checkpoints (TestNet4Params w)))"
    by (simp add: TestNet4Params_def)
  moreover have "sorted_wrt (<) (map Height (Checkpoints (RegressionNetParams w)))"
    by (simp add: RegressionNetParams_def)
  moreover have "sorted_wrt (<) (map Height (Checkpoints (SimNetParams w)))"
    by (simp add: SimNetParams_def)
  ultimately show ?thesis by simp
qed

lemma builtin_deployments:
  "Deployments (MainNetParams w) =
     [\<lparr>BitNumber = 28, StartTime = 1199145601, ExpireTime = 1230767999\<rparr>,
      \<lparr>BitNumber = 0, StartTime = 1485561600, ExpireTime = 1517356801\<rparr>,
      \<lparr>BitNumber = 1, StartTime = 1485561600, ExpireTime = 1517356801\<rparr>]"
  "Deployments (TestNet4Params w) =
     [\<lparr>BitNumber = 28, StartTime = 1199145601, ExpireTime = 1230767999\<rparr>,
      \<lparr>BitNumber = 0, StartTime = 1483228800, ExpireTime = 1517356801\<rparr>,
      \<lparr>BitNumber = 1, StartTime = 1483228800, ExpireTime = 1517356801\<rparr>]"
  "Deployments (RegressionNetParams w) =
     [\<lparr>BitNumber = 28, StartTime = 0, ExpireTime = MaxInt64\<rparr>,
      \<lparr>BitNumber = 0, StartTime = 0, ExpireTime = MaxInt64\<rparr>,
      \<lparr>BitNumber = 1, StartTime = 0, ExpireTime = MaxInt64\<rparr>]"
  "Deployments (SimNetParams w) =
     [\<lparr>BitNumber = 28, StartTime = 0, ExpireTime = MaxInt64\<rparr>,
      \<lparr>BitNumber = 0, StartTime = 0, ExpireTime = MaxInt64\<rparr>,
      \<lparr>BitNumber = 1, StartTime = 0, ExpireTime = MaxInt64\<rparr>]"
  by (simp_all add: MainNetParams_def TestNet4Params_def RegressionNetParams_def SimNetParams_def)

lemma builtin_windows:
  assumes "p \<in> {MainNetParams w, TestNet4Params w, RegressionNetParams w, SimNetParams w}"
  shows "length (Deployments p) = DefinedDeployments"
    and "list_all (\<lambda>d. StartTime d < ExpireTime d) (Deployments p)"
  using assms
  by (auto simp: builtin_deployments DefinedDeployments_def MaxInt64_def)

text \<open>
  C8.  For each built-in network and each of the three deployment offsets, the start time
  is below the expire time unless the expire time is \<open>math.MaxInt64\<close>, the value the
  source marks as never expiring.
\<close>

theorem builtin_deployment_windows:
  assumes "p \<in> {MainNetParams w, TestNet4Params w, RegressionNetParams w, SimNetParams w}"
    and "i \<in> {DeploymentTestDummy, DeploymentCSV, DeploymentSegwit}"
    and "ExpireTime (Deployments p ! i) \<noteq> MaxInt64"
  shows "i < length (Deployments p) \<and> StartTime (Deployments p ! i) < ExpireTime (Deployments p ! i)"
proof -
  from assms(2) have "i < DefinedDeployments"
    by (auto simp: DeploymentTestDummy_def DeploymentCSV_def DeploymentSegwit_def
        DefinedDeployments_def)
  with builtin_windows(1) [OF assms(1)] have i: "i < length (Deployments p)"
    by simp
  with builtin_windows(2) [OF assms(1)] show ?thesis
    by (simp add: list_all_length)
qed

theorem builtin_deployment_windows_witness:
  "ExpireTime (Deployments (MainNetParams sampleWire) ! DeploymentCSV) \<noteq> MaxInt64
   \<and> StartTime (Deployments (MainNetParams sampleWire) ! DeploymentCSV) = 1485561600
   \<and> ExpireTime (Deployments (MainNetParams sampleWire) ! DeploymentCSV) = 1517356801
   \<and> StartTime (Deployments (MainNetParams sampleWire) ! DeploymentCSV)
       < ExpireTime (Deployments (MainNetParams sampleWire) ! DeploymentCSV)"
proof -
  have vals: "StartTime (Deployments (MainNetParams sampleWire) ! DeploymentCSV) = 1485561600"
    "ExpireTime (Deployments (MainNetParams sampleWire) ! DeploymentCSV) = 1517356801"
    by (simp_all add: builtin_deployments DeploymentCSV_def)
  have live: "ExpireTime (Deployments (MainNetParams sampleWire) ! DeploymentCSV) \<noteq> MaxInt64"
    by (simp add: vals MaxInt64_def)
  have "MainNetParams sampleWire \<in> {MainNetParams sampleWire, TestNet4Params sampleWire,
      RegressionNetParams sampleWire, SimNetParams sampleWire}"
    and "DeploymentCSV \<in> {DeploymentTestDummy, DeploymentCSV, DeploymentSegwit}"
    by simp_all
  from builtin_deployment_windows [OF this live] vals live show ?thesis
    by simp
qed

section \<open>Proof-of-work limit and its compact form\<close>

lemma builtin_pow:
  "PowLimitBits (MainNetParams w) = 504365055" "PowLimit (MainNetParams w) = mainPowLimit"
  "PowLimitBits (TestNet4Params w) = 504365055" "PowLimit (TestNet4Params w) = testNet4PowLimit"
  "PowLimitBits (RegressionNetParams w) = 0x207fffff"
  "PowLimit (RegressionNetParams w) = regressionPowLimit"
  "PowLimitBits (SimNetParams w) = 0x207fffff" "PowLimit (SimNetParams w) = simNetPowLimit"
  by (simp_all add: MainNetParams_def TestNet4Params_def RegressionNetParams_def SimNetParams_def)

lemma CompactToBig_values:
  "CompactToBig 504365055 = 0x0fffff000000000000000000000000000000000000000000000000000000"
  "CompactToBig 0x207fffff = 2 ^ 255 - 2 ^ 232"
  by (simp_all add: CompactToBig_def Let_def push_bit_eq_mult)

text \<open>
  C3, as the code has it.  For the main and test (version 4) networks \<open>PowLimitBits\<close>
  decodes to exactly \<open>PowLimit\<close>.  For the regression-test and simulation networks
  \<open>PowLimitBits\<close> decodes to \<open>2 ^ 255 - 2 ^ 232\<close>, while \<open>PowLimit\<close> is \<open>2 ^ 255 - 1\<close>:
  the compact form keeps the leading 23 bits of the limit only.
\<close>

theorem builtin_powlimit_bits:
  "CompactToBig (PowLimitBits (MainNetParams w)) = PowLimit (MainNetParams w)
   \<and> CompactToBig (PowLimitBits (TestNet4Params w)) = PowLimit (TestNet4Params w)
   \<and> CompactToBig (PowLimitBits (RegressionNetParams w)) = 2 ^ 255 - 2 ^ 232
   \<and> PowLimit (RegressionNetParams w) = 2 ^ 255 - 1
   \<and> CompactToBig (PowLimitBits (SimNetParams w)) = 2 ^ 255 - 2 ^ 232
   \<and> PowLimit (SimNetParams w) = 2 ^ 255 - 1"
  by (simp add: builtin_pow CompactToBig_values mainPowLimit_def testNet4PowLimit_def
      regressionPowLimit_def simNetPowLimit_def bigOne_def push_bit_eq_mult)

text \<open>C3 as stated fails for the regression-test network.\<close>

theorem builtin_powlimit_bits_counterexample:
  "CompactToBig (PowLimitBits (RegressionNetParams sampleWire))
     \<noteq> PowLimit (RegressionNetParams sampleWire)"
  by (simp add: builtin_pow CompactToBig_values regressionPowLimit_def bigOne_def
      push_bit_eq_mult)

end
